theory Spec2Isabelle
  imports Main
begin

section \<open>Archive entries\<close>

text \<open>
  Both scripts drive Python's \<^verbatim>\<open>tarfile\<close> module. An entry descriptor
  (\<^verbatim>\<open>tarfile.TarInfo\<close>) is a record of the fields the scripts read or write, with
  the size and the link target; the member type is the one-byte type flag of the tar
  header, as in the library. Modes are Python integers: \<^verbatim>\<open>0o755\<close> is 493 and
  \<^verbatim>\<open>0o644\<close> is 420.
\<close>

type_synonym bytes = "char list"

record tarinfo =
  name :: string
  mode :: int
  uid :: int
  gid :: int
  size_ti :: nat
  mtime :: int
  type_ti :: char
  linkname :: string
  uname :: string
  gname :: string

abbreviation mode_0755 :: int where "mode_0755 \<equiv> 493"
abbreviation mode_0644 :: int where "mode_0644 \<equiv> 420"

definition REGTYPE :: char where "REGTYPE = CHR ''0''"
definition AREGTYPE :: char where "AREGTYPE = CHR 0x00"
definition LNKTYPE :: char where "LNKTYPE = CHR ''1''"
definition SYMTYPE :: char where "SYMTYPE = CHR ''2''"
definition CHRTYPE :: char where "CHRTYPE = CHR ''3''"
definition BLKTYPE :: char where "BLKTYPE = CHR ''4''"
definition DIRTYPE :: char where "DIRTYPE = CHR ''5''"
definition FIFOTYPE :: char where "FIFOTYPE = CHR ''6''"
definition CONTTYPE :: char where "CONTTYPE = CHR ''7''"
definition GNUTYPE_LONGNAME :: char where "GNUTYPE_LONGNAME = CHR ''L''"
definition GNUTYPE_LONGLINK :: char where "GNUTYPE_LONGLINK = CHR ''K''"
definition GNUTYPE_SPARSE :: char where "GNUTYPE_SPARSE = CHR ''S''"

definition SUPPORTED_TYPES :: "char list" where
  "SUPPORTED_TYPES = [REGTYPE, AREGTYPE, LNKTYPE, SYMTYPE, DIRTYPE, FIFOTYPE,
     CONTTYPE, CHRTYPE, BLKTYPE, GNUTYPE_LONGNAME, GNUTYPE_LONGLINK, GNUTYPE_SPARSE]"

definition REGULAR_TYPES :: "char list" where
  "REGULAR_TYPES = [REGTYPE, AREGTYPE, CONTTYPE, GNUTYPE_SPARSE]"

definition isreg :: "tarinfo \<Rightarrow> bool" where
  "isreg ti = (type_ti ti \<in> set REGULAR_TYPES)"

definition isdir :: "tarinfo \<Rightarrow> bool" where
  "isdir ti = (type_ti ti = DIRTYPE)"

definition issym :: "tarinfo \<Rightarrow> bool" where
  "issym ti = (type_ti ti = SYMTYPE)"

definition islnk :: "tarinfo \<Rightarrow> bool" where
  "islnk ti = (type_ti ti = LNKTYPE)"

text \<open>\<^verbatim>\<open>tarfile.TarInfo(name)\<close>: every field but the name starts at its default.\<close>

definition TarInfo :: "string \<Rightarrow> tarinfo" where
  "TarInfo n = \<lparr>name = n, mode = mode_0644, uid = 0, gid = 0, size_ti = 0, mtime = 0,
     type_ti = REGTYPE, linkname = [], uname = [], gname = []\<rparr>"

text \<open>
  A member of an archive is its descriptor with the data stored after its header; an
  archive is the list of its members in order. Writing an archive and reading it back
  is taken to return the members written.
\<close>

type_synonym member = "tarinfo \<times> bytes"
type_synonym archive = "member list"

datatype py_error = OSError | ReadError | FileNotFoundError | KeyError | AttributeError

text \<open>
  \<^verbatim>\<open>TarFile.extractfile(member)\<close>: a regular member, or one of a type the library does
  not know, gives a file object over the member's own data; a hard or symbolic link gives
  the file object of its target, which the library looks up in the archive (the lookup
  \<open>find_link\<close> is a parameter: it may raise); every other member gives \<^verbatim>\<open>None\<close>.
\<close>

definition extractfile :: "(member \<Rightarrow> py_error + bytes option) \<Rightarrow> member \<Rightarrow> py_error + bytes option" where
  "extractfile find_link member =
     (if isreg (fst member) \<or> type_ti (fst member) \<notin> set SUPPORTED_TYPES then Inr (Some (snd member))
      else if islnk (fst member) \<or> issym (fst member) then find_link member
      else Inr None)"

text \<open>
  \<^verbatim>\<open>TarFile.addfile(tarinfo, fileobj)\<close> writes the header and then, when a file object
  is given, copies exactly \<^verbatim>\<open>tarinfo.size\<close> bytes from it (\<^verbatim>\<open>copyfileobj\<close> raises
  when the file object is shorter). \<open>wfault = Some k\<close> says that the write of entry
  number \<open>k\<close> of the output fails (a full disk, say).
\<close>

definition addfile :: "nat option \<Rightarrow> archive \<Rightarrow> tarinfo \<Rightarrow> bytes option \<Rightarrow> py_error + archive" where
  "addfile wfault dst ti fileobj =
     (if wfault = Some (length dst) then Inl OSError
      else case fileobj of
        None \<Rightarrow> Inr (dst @ [(ti, [])])
      | Some bs \<Rightarrow>
          if length bs < size_ti ti then Inl OSError
          else Inr (dst @ [(ti, take (size_ti ti) bs)]))"

section \<open>The fixer: fix_tar_execs.py\<close>

definition startswith :: "string \<Rightarrow> string \<Rightarrow> bool" where
  "startswith s p = (take (length p) s = p)"

definition normalize :: "string \<Rightarrow> string" where
  "normalize n = (if startswith n ''./'' then drop 2 n else n)"

text \<open>The body of the loop over the members of the source archive.\<close>

definition fix_member ::
  "(member \<Rightarrow> py_error + bytes option) \<Rightarrow> nat option \<Rightarrow> archive \<Rightarrow> member \<Rightarrow> py_error + archive" where
  "fix_member find_link wfault dst member =
     (let name' = normalize (name (fst member));
          m = (TarInfo (name (fst member)))
                \<lparr>uid := uid (fst member), gid := gid (fst member),
                 mtime := mtime (fst member), type_ti := type_ti (fst member),
                 uname := uname (fst member), gname := gname (fst member)\<rparr>
      in if isdir (fst member) then addfile wfault dst (m\<lparr>mode := mode_0755\<rparr>) None
         else if isreg (fst member) then
           (let m' = m\<lparr>mode := (if startswith name' ''go/bin/'' \<or> startswith name' ''go/pkg/tool/''
                                   then mode_0755 else mode_0644)\<rparr>
            in case extractfile find_link member of
                 Inl e \<Rightarrow> Inl e
               | Inr f \<Rightarrow> addfile wfault dst m' f)
         else
           (let m' = m\<lparr>mode := (if mode (fst member) = 0 then mode_0644 else mode (fst member))\<rparr>;
                f = (case extractfile find_link member of Inl e \<Rightarrow> None | Inr f \<Rightarrow> f)
            in addfile wfault dst m' f))"

text \<open>
  The loop: the exception raised, if any, and the entries written to the new archive
  up to then.
\<close>

fun fix_members ::
  "(member \<Rightarrow> py_error + bytes option) \<Rightarrow> nat option \<Rightarrow> member list \<Rightarrow> archive \<Rightarrow> py_error option \<times> archive" where
  "fix_members find_link wfault [] dst = (None, dst)"
| "fix_members find_link wfault (member # rest) dst =
     (case fix_member find_link wfault dst member of
        Inl e \<Rightarrow> (Some e, dst)
      | Inr dst' \<Rightarrow> fix_members find_link wfault rest dst')"

text \<open>
  Files on disk. A file that \<^verbatim>\<open>tarfile\<close> can read holds an archive. \<open>Damaged\<close> is a
  gzip tar stream that breaks off after the entries given, so that reading its member
  list raises; a run that raises while it writes an archive is taken to leave such a
  file. \<open>Raw\<close> is any other content: the empty file \<^verbatim>\<open>mkstemp\<close> creates is \<open>Raw []\<close>.
\<close>

datatype disk_file = TarGz archive | Damaged archive | Raw bytes

type_synonym fs = "string \<Rightarrow> disk_file option"

text \<open>
  What the run depends on besides the file system: the path \<^verbatim>\<open>tempfile.mkstemp\<close>
  creates (\<open>None\<close>: it raises), a write that fails, and the library's lookup of link
  targets in the archive being read.
\<close>

record env =
  mkstemp :: "string option"
  write_fault :: "nat option"
  find_link :: "archive \<Rightarrow> member \<Rightarrow> py_error + bytes option"




section \<open>The builder: create_tar.py\<close>

text \<open>
  The source directory is a tree. A node carries what \<^verbatim>\<open>os.lstat\<close> reports of it; a
  symbolic link also says what it resolves to; \<open>Special\<close> is an object \<^verbatim>\<open>gettarinfo\<close>
  has no type for (a socket). Hard links between files are not represented.
\<close>

record stat =
  st_mode :: int
  st_uid :: int
  st_gid :: int
  st_mtime :: int
  st_uname :: string
  st_gname :: string

datatype link_to = ToDir | ToFile bytes | Dangling

datatype node =
    Reg stat bytes
  | Dir stat "(string \<times> node) list"
  | Symlink stat string link_to
  | Special stat

fun is_dir :: "node \<Rightarrow> bool" where
  "is_dir (Dir st cs) = True"
| "is_dir (Symlink st target ToDir) = True"
| "is_dir nd = False"

text \<open>
  \<^verbatim>\<open>os.walk(top)\<close>, top down and without following links: the triple of a directory
  (its path relative to the top, its entries that are directories, the others), then the
  walks of its subdirectories that are not links.
\<close>

fun os_walk :: "string list \<Rightarrow> (string \<times> node) list
    \<Rightarrow> (string list \<times> (string \<times> node) list \<times> (string \<times> node) list) list"
  and os_walk_subdirs :: "string list \<Rightarrow> (string \<times> node) list
    \<Rightarrow> (string list \<times> (string \<times> node) list \<times> (string \<times> node) list) list" where
  "os_walk root cs =
     (root, filter (\<lambda>c. is_dir (snd c)) cs, filter (\<lambda>c. \<not> is_dir (snd c)) cs)
       # os_walk_subdirs root cs"
| "os_walk_subdirs root [] = []"
| "os_walk_subdirs root (c # rest) =
     (case snd c of
        Dir st cs' \<Rightarrow> os_walk (root @ [fst c]) cs'
      | _ \<Rightarrow> [])
     @ os_walk_subdirs root rest"

text \<open>\<^verbatim>\<open>TarFile.gettarinfo(path, arcname)\<close> on a node of the tree.\<close>

definition from_stat :: "stat \<Rightarrow> string \<Rightarrow> char \<Rightarrow> nat \<Rightarrow> string \<Rightarrow> tarinfo" where
  "from_stat st arcname ty sz ln =
     \<lparr>name = arcname, mode = st_mode st, uid = st_uid st, gid = st_gid st, size_ti = sz,
      mtime = st_mtime st, type_ti = ty, linkname = ln, uname = st_uname st, gname = st_gname st\<rparr>"

fun gettarinfo :: "node \<Rightarrow> string \<Rightarrow> tarinfo option" where
  "gettarinfo (Reg st content) arcname = Some (from_stat st arcname REGTYPE (length content) [])"
| "gettarinfo (Dir st cs) arcname = Some (from_stat st arcname DIRTYPE 0 [])"
| "gettarinfo (Symlink st target to) arcname = Some (from_stat st arcname SYMTYPE 0 target)"
| "gettarinfo (Special st) arcname = None"

text \<open>\<^verbatim>\<open>open(file_path, "rb")\<close>, which follows links.\<close>

fun open_rb :: "node \<Rightarrow> py_error + bytes" where
  "open_rb (Reg st content) = Inr content"
| "open_rb (Symlink st target (ToFile content)) = Inr content"
| "open_rb (Symlink st target Dangling) = Inl FileNotFoundError"
| "open_rb nd = Inl OSError"

text \<open>\<^verbatim>\<open>str(Path(base_name) / rel)\<close> for the relative path with the segments \<open>parts\<close>.\<close>

fun join_path :: "string list \<Rightarrow> string" where
  "join_path [] = []"
| "join_path [p] = p"
| "join_path (p # ps) = p @ ''/'' @ join_path ps"

definition arcname_of :: "string \<Rightarrow> string list \<Rightarrow> string" where
  "arcname_of base_name parts = join_path (base_name # parts)"

definition is_executable :: "string list \<Rightarrow> bool" where
  "is_executable parts =
     (if length parts \<ge> 2 \<and> parts ! 0 = ''bin'' then True
      else if length parts \<ge> 3 \<and> parts ! 0 = ''pkg'' \<and> parts ! 1 = ''tool'' then True
      else if length parts \<ge> 1 \<and> parts ! 0 = ''tools'' then True
      else False)"

text \<open>The body of the loop over \<^verbatim>\<open>dirs\<close>, and the loop.\<close>

definition add_dir :: "nat option \<Rightarrow> string \<Rightarrow> string list \<Rightarrow> archive \<Rightarrow> string \<times> node \<Rightarrow> py_error + archive" where
  "add_dir wfault base_name root dst d =
     (case gettarinfo (snd d) (arcname_of base_name (root @ [fst d])) of
        None \<Rightarrow> Inl AttributeError
      | Some ti \<Rightarrow> addfile wfault dst (ti\<lparr>mode := mode_0755\<rparr>) None)"

fun add_dirs :: "nat option \<Rightarrow> string \<Rightarrow> string list \<Rightarrow> (string \<times> node) list \<Rightarrow> archive \<Rightarrow> py_error option \<times> archive" where
  "add_dirs wfault base_name root [] dst = (None, dst)"
| "add_dirs wfault base_name root (d # rest) dst =
     (case add_dir wfault base_name root dst d of
        Inl e \<Rightarrow> (Some e, dst)
      | Inr dst' \<Rightarrow> add_dirs wfault base_name root rest dst')"

text \<open>The body of the loop over \<^verbatim>\<open>files\<close>, and the loop.\<close>

definition add_file :: "nat option \<Rightarrow> string \<Rightarrow> string list \<Rightarrow> archive \<Rightarrow> string \<times> node \<Rightarrow> py_error + archive" where
  "add_file wfault base_name root dst f =
     (case gettarinfo (snd f) (arcname_of base_name (root @ [fst f])) of
        None \<Rightarrow> Inl AttributeError
      | Some ti \<Rightarrow>
          (let parts = root @ [fst f];
               ti' = ti\<lparr>mode := (if is_executable parts then mode_0755 else mode_0644)\<rparr>
           in case open_rb (snd f) of
                Inl e \<Rightarrow> Inl e
              | Inr content \<Rightarrow> addfile wfault dst ti' (Some content)))"

fun add_files :: "nat option \<Rightarrow> string \<Rightarrow> string list \<Rightarrow> (string \<times> node) list \<Rightarrow> archive \<Rightarrow> py_error option \<times> archive" where
  "add_files wfault base_name root [] dst = (None, dst)"
| "add_files wfault base_name root (f # rest) dst =
     (case add_file wfault base_name root dst f of
        Inl e \<Rightarrow> (Some e, dst)
      | Inr dst' \<Rightarrow> add_files wfault base_name root rest dst')"

text \<open>The loop over the triples of the walk.\<close>

fun add_walk :: "nat option \<Rightarrow> string
    \<Rightarrow> (string list \<times> (string \<times> node) list \<times> (string \<times> node) list) list \<Rightarrow> archive
    \<Rightarrow> py_error option \<times> archive" where
  "add_walk wfault base_name [] dst = (None, dst)"
| "add_walk wfault base_name ((root, dirs, files) # rest) dst =
     (case add_dirs wfault base_name root dirs dst of
        (Some e, dst') \<Rightarrow> (Some e, dst')
      | (None, dst') \<Rightarrow>
          (case add_files wfault base_name root files dst' of
             (Some e, dst'') \<Rightarrow> (Some e, dst'')
           | (None, dst'') \<Rightarrow> add_walk wfault base_name rest dst''))"

text \<open>
  The \<^verbatim>\<open>with\<close> block of the builder on a source directory with the entries \<open>cs\<close>: the
  base entry, then the walk.
\<close>

definition build_entries :: "nat option \<Rightarrow> string \<Rightarrow> stat \<Rightarrow> (string \<times> node) list \<Rightarrow> py_error option \<times> archive" where
  "build_entries wfault base_name st cs =
     (case gettarinfo (Dir st cs) base_name of
        None \<Rightarrow> (Some AttributeError, [])
      | Some base_dir_info \<Rightarrow>
          (case addfile wfault [] (base_dir_info\<lparr>mode := mode_0755\<rparr>) None of
             Inl e \<Rightarrow> (Some e, [])
           | Inr dst \<Rightarrow> add_walk wfault base_name (os_walk [] cs) dst))"

text \<open>
  The builder's world: the object a source path resolves to
  (\<^verbatim>\<open>Path(source_dir).resolve()\<close>), which output paths can be created, a write that
  fails, and the archive files written (the state). An exception inside the \<^verbatim>\<open>try\<close>
  block is caught and makes the function return \<^verbatim>\<open>False\<close>; the output file is tested
  for existence after it was written, which cannot fail here.
\<close>

record benv =
  disk :: "string \<Rightarrow> node option"
  creatable :: "string \<Rightarrow> bool"
  bwrite_fault :: "nat option"

definition create_tar_with_permissions :: "benv \<Rightarrow> fs \<Rightarrow> string \<Rightarrow> string \<Rightarrow> string \<Rightarrow> bool \<times> fs" where
  "create_tar_with_permissions e outs source_dir output_tar base_name =
     (case disk e source_dir of
        None \<Rightarrow> (False, outs)
      | Some (Dir st cs) \<Rightarrow>
          if \<not> creatable e output_tar then (False, outs)
          else
            (case build_entries (bwrite_fault e) base_name st cs of
               (Some err, dst) \<Rightarrow> (False, outs(output_tar \<mapsto> Damaged dst))
             | (None, dst) \<Rightarrow>
                 if bwrite_fault e = Some (length dst) then (False, outs(output_tar \<mapsto> Damaged dst))
                 else (True, outs(output_tar \<mapsto> TarGz dst)))
      | Some nd \<Rightarrow> (False, outs))"

definition main :: "benv \<Rightarrow> fs \<Rightarrow> string list \<Rightarrow> int \<times> fs" where
  "main e outs argv =
     (if length argv \<noteq> 3 then (2, outs)
      else
        (let source_dir = argv ! 1;
             output_tar = argv ! 2;
             (success, outs') = create_tar_with_permissions e outs source_dir output_tar ''go''
         in (if success then 0 else 1, outs')))"

section \<open>Closed forms and example inputs\<close>

text \<open>
  The entry the fixer's loop body appends for a member, in closed form; that the loop
  writes exactly these entries is proved below (\<open>fix_members_None\<close>).
\<close>

definition replacement :: "member \<Rightarrow> member" where
  "replacement member =
     ((TarInfo (name (fst member)))
        \<lparr>mode := (if isdir (fst member) then mode_0755
                  else if isreg (fst member) then
                    (if startswith (normalize (name (fst member))) ''go/bin/''
                        \<or> startswith (normalize (name (fst member))) ''go/pkg/tool/''
                     then mode_0755 else mode_0644)
                  else if mode (fst member) = 0 then mode_0644 else mode (fst member)),
         uid := uid (fst member), gid := gid (fst member),
         mtime := mtime (fst member), type_ti := type_ti (fst member),
         uname := uname (fst member), gname := gname (fst member)\<rparr>, [])"

text \<open>An archive to run the fixer on, with no link target to be found in it.\<close>

definition entry :: "string \<Rightarrow> int \<Rightarrow> char \<Rightarrow> string \<Rightarrow> bytes \<Rightarrow> member" where
  "entry n md ty ln d =
     (\<lparr>name = n, mode = md, uid = 1000, gid = 50, size_ti = length d, mtime = 1700000000,
       type_ti = ty, linkname = ln, uname = ''build'', gname = ''staff''\<rparr>, d)"

definition no_links :: "member \<Rightarrow> py_error + bytes option" where
  "no_links member = Inl KeyError"

definition example_src :: archive where
  "example_src =
     [entry ''go/src'' 448 DIRTYPE [] [],
      entry ''go/bin/tool1'' 384 REGTYPE [] ''ELF'',
      entry ''./go/pkg/tool/linux_amd64/compile'' 420 REGTYPE [] ''ELF2'',
      entry ''go/src/main.go'' 511 REGTYPE [] ''package main'',
      entry ''go/bin/gofmt'' 511 SYMTYPE ''../pkg/gofmt'' [],
      entry ''go/dump'' 0 (CHR ''D'') [] ''x'']"



text \<open>A source tree for the builder, and a world around it.\<close>

definition dir_stat :: stat where
  "dir_stat = \<lparr>st_mode = 16832, st_uid = 1000, st_gid = 50, st_mtime = 1700000000,
     st_uname = ''build'', st_gname = ''staff''\<rparr>"

definition file_stat :: stat where
  "file_stat = \<lparr>st_mode = 33152, st_uid = 1000, st_gid = 50, st_mtime = 1700000000,
     st_uname = ''build'', st_gname = ''staff''\<rparr>"

definition example_tree :: "(string \<times> node) list" where
  "example_tree =
     [(''bin'', Dir dir_stat [(''go'', Reg file_stat ''ELF'')]),
      (''pkg'', Dir dir_stat
         [(''tool'', Dir dir_stat [(''compile'', Reg file_stat ''ELF2'')]),
          (''x.a'', Reg file_stat ''ar'')]),
      (''tools'', Reg file_stat ''sh''),
      (''VERSION'', Reg file_stat ''go1.23'')]"

definition example_benv :: benv where
  "example_benv =
     \<lparr>disk = Map.empty(''./temp/go'' \<mapsto> Dir dir_stat example_tree, ''./temp/notes.txt'' \<mapsto> Reg file_stat ''n''),
      creatable = (\<lambda>p. True), bwrite_fault = None\<rparr>"

text \<open>
  What is asked of an entry the builder writes, given the triples of the walk: a
  directory entry has mode 0755, and a regular-file entry is the entry of a file of the
  walk, named by its path under the base name, with the mode its relative path decides.
\<close>

definition entry_ok :: "string
    \<Rightarrow> (string list \<times> (string \<times> node) list \<times> (string \<times> node) list) list \<Rightarrow> member \<Rightarrow> bool" where
  "entry_ok base_name ts e =
     ((isdir (fst e) \<longrightarrow> mode (fst e) = mode_0755) \<and>
      (isreg (fst e) \<longrightarrow>
         (\<exists>root dirs files f. (root, dirs, files) \<in> set ts \<and> f \<in> set files \<and>
            name (fst e) = arcname_of base_name (root @ [fst f]) \<and>
            mode (fst e) = (if is_executable (root @ [fst f]) then mode_0755 else mode_0644))))"

text \<open>The entries a triple of the walk lists as directories are directories.\<close>

definition dirs_are_dirs :: "string list \<times> (string \<times> node) list \<times> (string \<times> node) list \<Rightarrow> bool" where
  "dirs_are_dirs t = (\<forall>d\<in>set (fst (snd t)). is_dir (snd d))"

section \<open>Properties of the fixer\<close>

lemmas type_defs = REGTYPE_def AREGTYPE_def LNKTYPE_def SYMTYPE_def CHRTYPE_def
  BLKTYPE_def DIRTYPE_def FIFOTYPE_def CONTTYPE_def GNUTYPE_LONGNAME_def
  GNUTYPE_LONGLINK_def GNUTYPE_SPARSE_def SUPPORTED_TYPES_def REGULAR_TYPES_def

lemma isdir_not_isreg: "isdir ti \<Longrightarrow> \<not> isreg ti"
  by (simp add: isdir_def isreg_def type_defs)

lemma addfile_size0:
  "size_ti ti = 0 \<Longrightarrow> addfile wfault dst ti f = Inr dst' \<Longrightarrow> dst' = dst @ [(ti, [])]"
  by (auto simp: addfile_def split: if_splits option.splits)

lemma fix_member_Inr:
  assumes "fix_member fl wfault dst member = Inr dst'"
  shows "dst' = dst @ [replacement member]"
  using assms
  by (auto simp: fix_member_def replacement_def Let_def TarInfo_def
      split: if_splits sum.splits dest!: addfile_size0[rotated])

lemma fix_members_None:
  "fix_members fl wfault src dst = (None, dst') \<Longrightarrow> dst' = dst @ map replacement src"
proof (induction src arbitrary: dst)
  case Nil
  then show ?case by simp
next
  case (Cons m src)
  from Cons.prems obtain d where d: "fix_member fl wfault dst m = Inr d"
    and r: "fix_members fl wfault src d = (None, dst')"
    by (auto split: sum.splits)
  from d have "d = dst @ [replacement m]" by (rule fix_member_Inr)
  with Cons.IH[OF r] show ?case by simp
qed

lemma fix_members_entry:
  assumes "fix_members fl wfault src [] = (None, dst)" and "i < length src"
  shows "dst ! i = replacement (src ! i)"
proof -
  from assms(1) have "dst = map replacement src"
    using fix_members_None by fastforce
  with assms(2) show ?thesis by simp
qed

text \<open>Without a failing write the loop runs to its end, whatever the archive.\<close>

lemma addfile_no_fault:
  "size_ti ti = 0 \<Longrightarrow> addfile None dst ti f = Inr (dst @ [(ti, [])])"
  by (auto simp: addfile_def split: option.splits)

lemma fix_member_no_fault:
  "fix_member fl None dst member = Inr (dst @ [replacement member])"
  by (auto simp: fix_member_def replacement_def Let_def TarInfo_def extractfile_def addfile_no_fault
      split: sum.splits)

lemma fix_members_no_fault:
  "fix_members fl None src dst = (None, dst @ map replacement src)"
  by (induction src arbitrary: dst) (auto simp: fix_member_no_fault)

text \<open>
  C3. For every entry of the input archive the fixer assigns mode 0755 to a directory
  entry, mode 0755 to a regular-file entry whose name, with a leading \<^verbatim>\<open>./\<close> stripped,
  starts with \<^verbatim>\<open>go/bin/\<close> or \<^verbatim>\<open>go/pkg/tool/\<close>, and mode 0644 to every other
  regular-file entry.
\<close>

theorem fixer_mode_by_type_and_name:
  assumes "fix_members fl wfault src [] = (None, dst)" and "i < length src"
  shows "(isdir (fst (src ! i)) \<longrightarrow> mode (fst (dst ! i)) = mode_0755) \<and>
         (isreg (fst (src ! i)) \<longrightarrow>
            mode (fst (dst ! i)) =
              (if startswith (normalize (name (fst (src ! i)))) ''go/bin/''
                  \<or> startswith (normalize (name (fst (src ! i)))) ''go/pkg/tool/''
               then mode_0755 else mode_0644))"
proof -
  have "dst ! i = replacement (src ! i)"
    using assms by (rule fix_members_entry)
  then show ?thesis
    by (auto simp: replacement_def dest: isdir_not_isreg)
qed

theorem fixer_mode_by_type_and_name_witness:
  "fix_members no_links None example_src [] = (None, map replacement example_src) \<and>
   mode (fst (map replacement example_src ! 0)) = 493 \<and>
   mode (fst (map replacement example_src ! 1)) = 493 \<and>
   mode (fst (map replacement example_src ! 2)) = 493 \<and>
   mode (fst (map replacement example_src ! 3)) = 420"
proof -
  have run: "fix_members no_links None example_src [] = (None, map replacement example_src)"
    by (simp add: fix_members_no_fault)
  have "mode (fst (map replacement example_src ! 0)) = 493"
    using fixer_mode_by_type_and_name [OF run, of 0]
    by (simp add: example_src_def entry_def isdir_def DIRTYPE_def)
  moreover have "mode (fst (map replacement example_src ! 1)) = 493"
    using fixer_mode_by_type_and_name [OF run, of 1]
    by (simp add: example_src_def entry_def isreg_def type_defs startswith_def normalize_def)
  moreover have "mode (fst (map replacement example_src ! 2)) = 493"
    using fixer_mode_by_type_and_name [OF run, of 2]
    by (simp add: example_src_def entry_def isreg_def type_defs startswith_def normalize_def)
  moreover have "mode (fst (map replacement example_src ! 3)) = 420"
    using fixer_mode_by_type_and_name [OF run, of 3]
    by (simp add: example_src_def entry_def isreg_def type_defs startswith_def normalize_def)
  ultimately show ?thesis
    using run by simp
qed

text \<open>
  C4. For every entry of the input archive the fixer writes the output entry under the
  original member name, unchanged: the name with the leading \<^verbatim>\<open>./\<close> stripped is used
  for the classification only and is not the name written.
\<close>

theorem fixer_keeps_member_name:
  assumes "fix_members fl wfault src [] = (None, dst)" and "i < length src"
  shows "name (fst (dst ! i)) = name (fst (src ! i))"
proof -
  have "dst ! i = replacement (src ! i)"
    using assms by (rule fix_members_entry)
  then show ?thesis
    by (simp add: replacement_def TarInfo_def)
qed

theorem fixer_keeps_member_name_witness:
  "fix_members no_links None example_src [] = (None, map replacement example_src) \<and>
   normalize ''./go/pkg/tool/linux_amd64/compile'' = ''go/pkg/tool/linux_amd64/compile'' \<and>
   name (fst (map replacement example_src ! 2)) = ''./go/pkg/tool/linux_amd64/compile''"
proof -
  have run: "fix_members no_links None example_src [] = (None, map replacement example_src)"
    by (simp add: fix_members_no_fault)
  have "name (fst (map replacement example_src ! 2)) = ''./go/pkg/tool/linux_amd64/compile''"
    using fixer_keeps_member_name [OF run, of 2]
    by (simp add: example_src_def entry_def)
  then show ?thesis
    using run by (simp add: normalize_def startswith_def)
qed

text \<open>
  C6. For every entry of the input archive, of every type, the fixer copies the owner id,
  the group id, the owner name, the group name and the modification time unchanged from
  the source entry into the output entry.
\<close>

theorem fixer_copies_owner_and_mtime:
  assumes "fix_members fl wfault src [] = (None, dst)" and "i < length src"
  shows "uid (fst (dst ! i)) = uid (fst (src ! i)) \<and>
         gid (fst (dst ! i)) = gid (fst (src ! i)) \<and>
         uname (fst (dst ! i)) = uname (fst (src ! i)) \<and>
         gname (fst (dst ! i)) = gname (fst (src ! i)) \<and>
         mtime (fst (dst ! i)) = mtime (fst (src ! i))"
proof -
  have "dst ! i = replacement (src ! i)"
    using assms by (rule fix_members_entry)
  then show ?thesis
    by (simp add: replacement_def TarInfo_def)
qed

theorem fixer_copies_owner_and_mtime_witness:
  "fix_members no_links None example_src [] = (None, map replacement example_src) \<and>
   uid (fst (map replacement example_src ! 4)) = 1000 \<and>
   gid (fst (map replacement example_src ! 4)) = 50 \<and>
   uname (fst (map replacement example_src ! 4)) = ''build'' \<and>
   gname (fst (map replacement example_src ! 4)) = ''staff'' \<and>
   mtime (fst (map replacement example_src ! 4)) = 1700000000"
proof -
  have run: "fix_members no_links None example_src [] = (None, map replacement example_src)"
    by (simp add: fix_members_no_fault)
  show ?thesis
    using run fixer_copies_owner_and_mtime [OF run, of 4]
    by (simp add: example_src_def entry_def)
qed

text \<open>
  C10. For every input entry that is neither a regular file nor a directory (a symbolic
  link, say) the output entry has an empty link target and size 0, whatever the link
  target of the source entry: neither field is copied into the replacement descriptor.
\<close>

theorem fixer_other_entry_loses_link_and_size:
  assumes "fix_members fl wfault src [] = (None, dst)" and "i < length src"
    and "\<not> isreg (fst (src ! i))" and "\<not> isdir (fst (src ! i))"
  shows "linkname (fst (dst ! i)) = [] \<and> size_ti (fst (dst ! i)) = 0 \<and> snd (dst ! i) = []"
proof -
  have "dst ! i = replacement (src ! i)"
    using assms(1,2) by (rule fix_members_entry)
  then show ?thesis
    by (simp add: replacement_def TarInfo_def)
qed

theorem fixer_other_entry_loses_link_and_size_witness:
  "fix_members no_links None example_src [] = (None, map replacement example_src) \<and>
   linkname (fst (example_src ! 4)) = ''../pkg/gofmt'' \<and>
   linkname (fst (map replacement example_src ! 4)) = [] \<and>
   size_ti (fst (map replacement example_src ! 4)) = 0"
proof -
  have run: "fix_members no_links None example_src [] = (None, map replacement example_src)"
    by (simp add: fix_members_no_fault)
  have "linkname (fst (map replacement example_src ! 4)) = [] \<and>
        size_ti (fst (map replacement example_src ! 4)) = 0 \<and> snd (map replacement example_src ! 4) = []"
    using fixer_other_entry_loses_link_and_size [OF run, of 4]
    by (simp add: example_src_def entry_def isreg_def isdir_def type_defs)
  then show ?thesis
    using run by (simp add: example_src_def entry_def)
qed

text \<open>
  C1. The claim is that the output entry of a regular file carries the content of the
  source entry. The replacement descriptor keeps the default size 0, and \<^verbatim>\<open>addfile\<close>
  copies as many bytes as the descriptor's size: the entry \<^verbatim>\<open>go/bin/tool1\<close> with the
  three bytes \<^verbatim>\<open>ELF\<close> is written with size 0 and no content.
\<close>

theorem fixer_drops_regular_content:
  "fix_members no_links None [entry ''go/bin/tool1'' 384 REGTYPE [] ''ELF''] [] =
     (None, [(\<lparr>name = ''go/bin/tool1'', mode = 493, uid = 1000, gid = 50, size_ti = 0,
               mtime = 1700000000, type_ti = REGTYPE, linkname = [], uname = ''build'',
               gname = ''staff''\<rparr>, [])])"
  by (simp add: fix_member_def entry_def isdir_def isreg_def type_defs TarInfo_def
      normalize_def startswith_def extractfile_def addfile_def)












section \<open>Properties of the builder\<close>

lemma is_executable_iff:
  "is_executable parts \<longleftrightarrow>
     (2 \<le> length parts \<and> parts ! 0 = ''bin'') \<or>
     (3 \<le> length parts \<and> parts ! 0 = ''pkg'' \<and> parts ! 1 = ''tool'') \<or>
     (1 \<le> length parts \<and> parts ! 0 = ''tools'')"
  by (simp add: is_executable_def)

lemma entry_ok_mono: "entry_ok base_name ts e \<Longrightarrow> set ts \<subseteq> set ts' \<Longrightarrow> entry_ok base_name ts' e"
  unfolding entry_ok_def by blast

lemma gettarinfo_is_dir:
  "is_dir nd \<Longrightarrow> gettarinfo nd arcname = Some ti \<Longrightarrow> \<not> isreg ti"
  by (cases nd rule: is_dir.cases) (auto simp: from_stat_def isreg_def type_defs)

lemma add_dir_Inr:
  assumes "add_dir wfault base_name root dst d = Inr dst'" and "is_dir (snd d)"
  shows "\<exists>ti. dst' = dst @ [(ti, [])] \<and> mode ti = mode_0755 \<and> \<not> isreg ti"
proof -
  from assms(1) obtain ti where g: "gettarinfo (snd d) (arcname_of base_name (root @ [fst d])) = Some ti"
    and a: "addfile wfault dst (ti\<lparr>mode := mode_0755\<rparr>) None = Inr dst'"
    by (auto simp: add_dir_def split: option.splits)
  from gettarinfo_is_dir [OF assms(2) g] have "\<not> isreg (ti\<lparr>mode := mode_0755\<rparr>)"
    by (simp add: isreg_def)
  moreover from a have "dst' = dst @ [(ti\<lparr>mode := mode_0755\<rparr>, [])]"
    by (auto simp: addfile_def split: if_splits)
  ultimately show ?thesis by auto
qed

lemma add_dirs_entries:
  "add_dirs wfault base_name root ds dst = (exc, dst') \<Longrightarrow> \<forall>d\<in>set ds. is_dir (snd d) \<Longrightarrow>
   \<exists>es. dst' = dst @ es \<and> (\<forall>e\<in>set es. mode (fst e) = mode_0755 \<and> \<not> isreg (fst e))"
proof (induction ds arbitrary: dst)
  case Nil
  then show ?case by simp
next
  case (Cons d ds)
  show ?case
  proof (cases "add_dir wfault base_name root dst d")
    case (Inl err)
    with Cons.prems show ?thesis by simp
  next
    case (Inr d1)
    with Cons.prems have rest: "add_dirs wfault base_name root ds d1 = (exc, dst')" by simp
    from Cons.prems have "is_dir (snd d)" and ds: "\<forall>d\<in>set ds. is_dir (snd d)" by simp_all
    from add_dir_Inr [OF Inr this(1)] obtain ti where
      d1: "d1 = dst @ [(ti, [])]" and ti: "mode ti = mode_0755" "\<not> isreg ti" by blast
    from Cons.IH [OF rest ds] obtain es where
      "dst' = d1 @ es" and "\<forall>e\<in>set es. mode (fst e) = mode_0755 \<and> \<not> isreg (fst e)" by blast
    with d1 ti have "dst' = dst @ ((ti, []) # es) \<and>
        (\<forall>e\<in>set ((ti, []) # es). mode (fst e) = mode_0755 \<and> \<not> isreg (fst e))"
      by simp
    then show ?thesis by blast
  qed
qed

lemma open_rb_not_dir:
  "open_rb nd = Inr content \<Longrightarrow> gettarinfo nd arcname = Some ti \<Longrightarrow> \<not> isdir ti"
  by (cases nd rule: open_rb.cases) (auto simp: from_stat_def isdir_def type_defs)

lemma gettarinfo_name: "gettarinfo nd arcname = Some ti \<Longrightarrow> name ti = arcname"
  by (cases nd) (auto simp: from_stat_def)

lemma add_file_Inr:
  assumes "add_file wfault base_name root dst f = Inr dst'"
  shows "\<exists>ti content. dst' = dst @ [(ti, content)] \<and> \<not> isdir ti \<and>
           name ti = arcname_of base_name (root @ [fst f]) \<and>
           mode ti = (if is_executable (root @ [fst f]) then mode_0755 else mode_0644)"
proof -
  let ?m = "if is_executable (root @ [fst f]) then mode_0755 else mode_0644"
  from assms obtain ti content where
    g: "gettarinfo (snd f) (arcname_of base_name (root @ [fst f])) = Some ti"
    and opn: "open_rb (snd f) = Inr content"
    and a: "addfile wfault dst (ti\<lparr>mode := ?m\<rparr>) (Some content) = Inr dst'"
    by (auto simp: add_file_def Let_def split: option.splits sum.splits)
  from a have "dst' = dst @ [(ti\<lparr>mode := ?m\<rparr>, take (size_ti ti) content)]"
    by (auto simp: addfile_def split: if_splits)
  moreover from open_rb_not_dir [OF opn g] have "\<not> isdir (ti\<lparr>mode := ?m\<rparr>)"
    by (simp add: isdir_def)
  moreover from gettarinfo_name [OF g] have "name (ti\<lparr>mode := ?m\<rparr>) = arcname_of base_name (root @ [fst f])"
    by simp
  moreover have "mode (ti\<lparr>mode := ?m\<rparr>) = ?m" by simp
  ultimately show ?thesis by blast
qed

lemma add_files_entries:
  "add_files wfault base_name root fs dst = (exc, dst') \<Longrightarrow>
   \<exists>es. dst' = dst @ es \<and>
     (\<forall>e\<in>set es. \<not> isdir (fst e) \<and>
        (\<exists>f\<in>set fs. name (fst e) = arcname_of base_name (root @ [fst f]) \<and>
           mode (fst e) = (if is_executable (root @ [fst f]) then mode_0755 else mode_0644)))"
proof (induction fs arbitrary: dst)
  case Nil
  then show ?case by simp
next
  case (Cons f fs)
  show ?case
  proof (cases "add_file wfault base_name root dst f")
    case (Inl err)
    with Cons.prems show ?thesis by simp
  next
    case (Inr d1)
    with Cons.prems have rest: "add_files wfault base_name root fs d1 = (exc, dst')" by simp
    from add_file_Inr [OF Inr] obtain ti content where
      d1: "d1 = dst @ [(ti, content)]" and ti: "\<not> isdir ti"
      "name ti = arcname_of base_name (root @ [fst f])"
      "mode ti = (if is_executable (root @ [fst f]) then mode_0755 else mode_0644)" by blast
    from Cons.IH [OF rest] obtain es where
      es: "dst' = d1 @ es" and
      ok: "\<forall>e\<in>set es. \<not> isdir (fst e) \<and>
        (\<exists>f\<in>set fs. name (fst e) = arcname_of base_name (root @ [fst f]) \<and>
           mode (fst e) = (if is_executable (root @ [fst f]) then mode_0755 else mode_0644))"
      by blast
    from d1 es have "dst' = dst @ ((ti, content) # es)" by simp
    moreover from ti ok have "\<forall>e\<in>set ((ti, content) # es). \<not> isdir (fst e) \<and>
        (\<exists>g\<in>set (f # fs). name (fst e) = arcname_of base_name (root @ [fst g]) \<and>
           mode (fst e) = (if is_executable (root @ [fst g]) then mode_0755 else mode_0644))"
      by auto
    ultimately show ?thesis by blast
  qed
qed

lemma add_walk_entries:
  "add_walk wfault base_name ts dst = (exc, dst') \<Longrightarrow>
   \<forall>t\<in>set ts. \<forall>d\<in>set (fst (snd t)). is_dir (snd d) \<Longrightarrow>
   \<exists>es. dst' = dst @ es \<and> (\<forall>e\<in>set es. entry_ok base_name ts e)"
proof (induction ts arbitrary: dst)
  case Nil
  then show ?case by simp
next
  case (Cons t ts)
  obtain root dirs files where t: "t = (root, dirs, files)" by (cases t)
  obtain x1 d1 where dirs: "add_dirs wfault base_name root dirs dst = (x1, d1)"
    by (cases "add_dirs wfault base_name root dirs dst")
  from Cons.prems(2) t have "\<forall>d\<in>set dirs. is_dir (snd d)" by simp
  from add_dirs_entries [OF dirs this] obtain es1 where
    d1: "d1 = dst @ es1" and ok1: "\<forall>e\<in>set es1. mode (fst e) = mode_0755 \<and> \<not> isreg (fst e)" by blast
  from ok1 have ok1': "\<forall>e\<in>set es1. entry_ok base_name (t # ts) e"
    by (simp add: entry_ok_def)
  show ?case
  proof (cases x1)
    case (Some err)
    with Cons.prems(1) t dirs have "dst' = d1" by simp
    with d1 ok1' show ?thesis by blast
  next
    case None
    obtain x2 d2 where files: "add_files wfault base_name root files d1 = (x2, d2)"
      by (cases "add_files wfault base_name root files d1")
    from add_files_entries [OF files] obtain es2 where
      d2: "d2 = d1 @ es2" and
      ok2: "\<forall>e\<in>set es2. \<not> isdir (fst e) \<and>
        (\<exists>f\<in>set files. name (fst e) = arcname_of base_name (root @ [fst f]) \<and>
           mode (fst e) = (if is_executable (root @ [fst f]) then mode_0755 else mode_0644))"
      by blast
    have ok2': "\<forall>e\<in>set es2. entry_ok base_name (t # ts) e"
    proof
      fix e assume "e \<in> set es2"
      with ok2 obtain f where "\<not> isdir (fst e)" "f \<in> set files"
        "name (fst e) = arcname_of base_name (root @ [fst f])"
        "mode (fst e) = (if is_executable (root @ [fst f]) then mode_0755 else mode_0644)"
        by blast
      then have "(root, dirs, files) \<in> set (t # ts) \<and> f \<in> set files \<and>
          name (fst e) = arcname_of base_name (root @ [fst f]) \<and>
          mode (fst e) = (if is_executable (root @ [fst f]) then mode_0755 else mode_0644)"
        by (simp add: t)
      then have "\<exists>root dirs files f. (root, dirs, files) \<in> set (t # ts) \<and> f \<in> set files \<and>
          name (fst e) = arcname_of base_name (root @ [fst f]) \<and>
          mode (fst e) = (if is_executable (root @ [fst f]) then mode_0755 else mode_0644)"
        by blast
      with \<open>\<not> isdir (fst e)\<close> show "entry_ok base_name (t # ts) e"
        unfolding entry_ok_def by blast
    qed
    show ?thesis
    proof (cases x2)
      case (Some err)
      with Cons.prems(1) t dirs None files have "dst' = d2" by simp
      with d1 d2 ok1' ok2' have "dst' = dst @ (es1 @ es2) \<and> (\<forall>e\<in>set (es1 @ es2). entry_ok base_name (t # ts) e)"
        by auto
      then show ?thesis by blast
    next
      case n2: None
      with Cons.prems(1) t dirs None files have rest: "add_walk wfault base_name ts d2 = (exc, dst')"
        by simp
      from Cons.prems(2) have "\<forall>t\<in>set ts. \<forall>d\<in>set (fst (snd t)). is_dir (snd d)" by simp
      from Cons.IH [OF rest this] obtain es3 where
        d3: "dst' = d2 @ es3" and ok3: "\<forall>e\<in>set es3. entry_ok base_name ts e" by blast
      from ok3 have ok3': "\<forall>e\<in>set es3. entry_ok base_name (t # ts) e"
        by (auto intro: entry_ok_mono)
      from d1 d2 d3 ok1' ok2' ok3'
      have "dst' = dst @ (es1 @ es2 @ es3) \<and> (\<forall>e\<in>set (es1 @ es2 @ es3). entry_ok base_name (t # ts) e)"
        by auto
      then show ?thesis by blast
    qed
  qed
qed

lemma dirs_of_triple_filter [simp]:
  "dirs_are_dirs (root, filter (\<lambda>c. is_dir (snd c)) cs, files)"
  by (simp add: dirs_are_dirs_def)

lemma os_walk_dirs_aux:
  "\<forall>t\<in>set (os_walk root cs). dirs_are_dirs t"
  "\<forall>t\<in>set (os_walk_subdirs root cs). dirs_are_dirs t"
  by (induction root cs and root cs rule: os_walk_os_walk_subdirs.induct)
     (auto split: node.splits)

lemma os_walk_dirs:
  "\<forall>t\<in>set (os_walk root cs). \<forall>d\<in>set (fst (snd t)). is_dir (snd d)"
  using os_walk_dirs_aux(1) [of root cs] by (simp add: dirs_are_dirs_def)

lemma build_entries_ok:
  assumes "build_entries wfault base_name st cs = (exc, dst)"
  shows "dst = [] \<or> (\<exists>ti es. dst = (ti, []) # es \<and> isdir ti \<and> mode ti = mode_0755 \<and>
            name ti = base_name \<and> (\<forall>e\<in>set es. entry_ok base_name (os_walk [] cs) e))"
proof (cases "addfile wfault [] (from_stat st base_name DIRTYPE 0 []\<lparr>mode := mode_0755\<rparr>) None")
  case (Inl err)
  with assms show ?thesis by (simp add: build_entries_def)
next
  case (Inr d0)
  let ?ti = "from_stat st base_name DIRTYPE 0 []\<lparr>mode := mode_0755\<rparr>"
  from Inr have d0: "d0 = [(?ti, [])]"
    by (auto simp: addfile_def split: if_splits)
  from assms Inr have "add_walk wfault base_name (os_walk [] cs) d0 = (exc, dst)"
    by (simp add: build_entries_def)
  from add_walk_entries [OF this os_walk_dirs] obtain es where
    "dst = d0 @ es" and "\<forall>e\<in>set es. entry_ok base_name (os_walk [] cs) e" by blast
  with d0 have "dst = (?ti, []) # es \<and> isdir ?ti \<and> mode ?ti = mode_0755 \<and> name ?ti = base_name \<and>
      (\<forall>e\<in>set es. entry_ok base_name (os_walk [] cs) e)"
    by (simp add: isdir_def from_stat_def)
  then show ?thesis by blast
qed

text \<open>
  C2. For every entry the builder writes: a directory entry, the base entry included
  (it is written first, as a directory named by the base name), gets mode 0755 whatever
  the permissions of the source; a regular-file entry is the entry of a file of the walk
  and gets mode 0755 if and only if the path of that file relative to the source root
  has first segment \<^verbatim>\<open>bin\<close> and at least 2 segments, or first two segments
  \<^verbatim>\<open>pkg\<close>, \<^verbatim>\<open>tool\<close> and at least 3 segments, or first segment \<^verbatim>\<open>tools\<close>;
  otherwise it gets mode 0644.
\<close>

theorem builder_modes:
  assumes "build_entries wfault base_name st cs = (exc, dst)" and "e \<in> set dst"
  shows "(isdir (fst e) \<longrightarrow> mode (fst e) = mode_0755) \<and>
         (isreg (fst e) \<longrightarrow>
            (\<exists>root dirs files f. (root, dirs, files) \<in> set (os_walk [] cs) \<and> f \<in> set files \<and>
               name (fst e) = arcname_of base_name (root @ [fst f]) \<and>
               mode (fst e) =
                 (if (2 \<le> length (root @ [fst f]) \<and> (root @ [fst f]) ! 0 = ''bin'') \<or>
                     (3 \<le> length (root @ [fst f]) \<and> (root @ [fst f]) ! 0 = ''pkg''
                        \<and> (root @ [fst f]) ! 1 = ''tool'') \<or>
                     (1 \<le> length (root @ [fst f]) \<and> (root @ [fst f]) ! 0 = ''tools'')
                  then mode_0755 else mode_0644))) \<and>
         isdir (fst (hd dst)) \<and> name (fst (hd dst)) = base_name"
proof -
  from assms(2) have "dst \<noteq> []" by auto
  with build_entries_ok [OF assms(1)] obtain ti es where
    dst: "dst = (ti, []) # es" and ti: "isdir ti" "mode ti = mode_0755" "name ti = base_name"
    and es: "\<forall>e\<in>set es. entry_ok base_name (os_walk [] cs) e" by blast
  have "entry_ok base_name (os_walk [] cs) e"
  proof (cases "e = (ti, [])")
    case True
    with ti show ?thesis by (auto simp: entry_ok_def dest: isdir_not_isreg)
  next
    case False
    with assms(2) dst es show ?thesis by auto
  qed
  then have "(isdir (fst e) \<longrightarrow> mode (fst e) = mode_0755) \<and>
      (isreg (fst e) \<longrightarrow>
         (\<exists>root dirs files f. (root, dirs, files) \<in> set (os_walk [] cs) \<and> f \<in> set files \<and>
            name (fst e) = arcname_of base_name (root @ [fst f]) \<and>
            mode (fst e) = (if is_executable (root @ [fst f]) then mode_0755 else mode_0644)))"
    by (simp add: entry_ok_def)
  then show ?thesis
    unfolding is_executable_iff using dst ti by simp
qed

lemma example_build:
  "fst (build_entries None ''go'' dir_stat example_tree) = None \<and>
   map (\<lambda>e. (name (fst e), type_ti (fst e), mode (fst e)))
     (snd (build_entries None ''go'' dir_stat example_tree)) =
   [(''go'', DIRTYPE, 493), (''go/bin'', DIRTYPE, 493), (''go/pkg'', DIRTYPE, 493),
    (''go/tools'', REGTYPE, 493), (''go/VERSION'', REGTYPE, 420), (''go/bin/go'', REGTYPE, 493),
    (''go/pkg/tool'', DIRTYPE, 493), (''go/pkg/x.a'', REGTYPE, 420),
    (''go/pkg/tool/compile'', REGTYPE, 493)]"
  by (simp add: build_entries_def example_tree_def dir_stat_def file_stat_def from_stat_def
      addfile_def add_dir_def add_file_def arcname_of_def is_executable_def Let_def)

theorem builder_modes_witness:
  "fst (build_entries None ''go'' dir_stat example_tree) = None \<and>
   isdir (fst (snd (build_entries None ''go'' dir_stat example_tree) ! 1)) \<and>
   mode (fst (snd (build_entries None ''go'' dir_stat example_tree) ! 1)) = 493 \<and>
   name (fst (snd (build_entries None ''go'' dir_stat example_tree) ! 5)) = ''go/bin/go'' \<and>
   isreg (fst (snd (build_entries None ''go'' dir_stat example_tree) ! 5)) \<and>
   mode (fst (snd (build_entries None ''go'' dir_stat example_tree) ! 5)) = 493 \<and>
   mode (fst (snd (build_entries None ''go'' dir_stat example_tree) ! 4)) = 420 \<and>
   name (fst (hd (snd (build_entries None ''go'' dir_stat example_tree)))) = ''go''"
proof -
  let ?out = "snd (build_entries None ''go'' dir_stat example_tree)"
  let ?f = "\<lambda>e::member. (name (fst e), type_ti (fst e), mode (fst e))"
  have run: "build_entries None ''go'' dir_stat example_tree = (None, ?out)"
    using example_build by (simp add: prod_eq_iff)
  from example_build have "length (map ?f ?out) = 9" by simp
  then have len: "length ?out = 9" by simp
  have nth: "?f (?out ! i) = map ?f ?out ! i" if "i < 9" for i
    using that len by simp
  have e1: "name (fst (?out ! 1)) = ''go/bin'' \<and> type_ti (fst (?out ! 1)) = DIRTYPE"
    using nth [of 1] example_build by simp
  have e4: "mode (fst (?out ! 4)) = 420"
    using nth [of 4] example_build by simp
  have e5: "name (fst (?out ! 5)) = ''go/bin/go'' \<and> type_ti (fst (?out ! 5)) = REGTYPE \<and>
      mode (fst (?out ! 5)) = 493"
    using nth [of 5] example_build by simp
  have in1: "?out ! 1 \<in> set ?out" and in5: "?out ! 5 \<in> set ?out"
    using len by simp_all
  have d1: "isdir (fst (?out ! 1))" using e1 by (simp add: isdir_def)
  have r5: "isreg (fst (?out ! 5))" using e5 by (simp add: isreg_def type_defs)
  from builder_modes [OF run in1] d1
  have "mode (fst (?out ! 1)) = 493 \<and> name (fst (hd ?out)) = ''go''" by simp
  with example_build d1 r5 e4 e5 show ?thesis by simp
qed

text \<open>
  C9. Invoking the builder with a source path that does not exist or is not a directory
  produces no output archive file and exits with code 1; the exit code is 0 on success
  and 2 on a wrong number of arguments.
\<close>

theorem builder_exit_codes:
  "(length argv \<noteq> 3 \<longrightarrow> main e outs argv = (2, outs)) \<and>
   (disk e source_dir = None \<or> (\<exists>nd. disk e source_dir = Some nd \<and> (\<forall>st cs. nd \<noteq> Dir st cs))
      \<longrightarrow> main e outs [prog, source_dir, output_tar] = (1, outs)) \<and>
   (length argv = 3 \<longrightarrow>
      fst (main e outs argv) =
        (if fst (create_tar_with_permissions e outs (argv ! 1) (argv ! 2) ''go'') then 0 else 1))"
proof (intro conjI impI)
  assume "length argv \<noteq> 3"
  then show "main e outs argv = (2, outs)" by (simp add: main_def)
next
  assume "disk e source_dir = None \<or> (\<exists>nd. disk e source_dir = Some nd \<and> (\<forall>st cs. nd \<noteq> Dir st cs))"
  then have "create_tar_with_permissions e outs source_dir output_tar ''go'' = (False, outs)"
    by (auto simp: create_tar_with_permissions_def split: node.splits)
  then show "main e outs [prog, source_dir, output_tar] = (1, outs)"
    by (simp add: main_def)
next
  assume "length argv = 3"
  then show "fst (main e outs argv) =
      (if fst (create_tar_with_permissions e outs (argv ! 1) (argv ! 2) ''go'') then 0 else 1)"
    by (simp add: main_def Let_def split: prod.splits)
qed

theorem builder_exit_codes_witness:
  "main example_benv Map.empty [''create_tar.py''] = (2, Map.empty) \<and>
   main example_benv Map.empty [''create_tar.py'', ''./missing'', ''out.tar.gz''] = (1, Map.empty) \<and>
   main example_benv Map.empty [''create_tar.py'', ''./temp/notes.txt'', ''out.tar.gz''] = (1, Map.empty) \<and>
   fst (main example_benv Map.empty [''create_tar.py'', ''./temp/go'', ''out.tar.gz'']) = 0"
proof -
  have a: "main example_benv Map.empty [''create_tar.py''] = (2, Map.empty)"
    using builder_exit_codes [of "[''create_tar.py'']" example_benv Map.empty]
    by simp
  have b: "main example_benv Map.empty [''create_tar.py'', ''./missing'', ''out.tar.gz''] = (1, Map.empty)"
    using builder_exit_codes [of _ example_benv _ "''./missing''" "''create_tar.py''" "''out.tar.gz''"]
    by (simp add: example_benv_def)
  have c: "main example_benv Map.empty [''create_tar.py'', ''./temp/notes.txt'', ''out.tar.gz''] = (1, Map.empty)"
    using builder_exit_codes [of _ example_benv _ "''./temp/notes.txt''" "''create_tar.py''" "''out.tar.gz''"]
    by (simp add: example_benv_def)
  obtain out where run: "build_entries None ''go'' dir_stat example_tree = (None, out)"
    using example_build by (cases "build_entries None ''go'' dir_stat example_tree") auto
  have ok: "fst (create_tar_with_permissions example_benv Map.empty ''./temp/go'' ''out.tar.gz'' ''go'')"
    by (simp add: create_tar_with_permissions_def example_benv_def run)
  have d: "fst (main example_benv Map.empty [''create_tar.py'', ''./temp/go'', ''out.tar.gz'']) = 0"
    using builder_exit_codes [of "[''create_tar.py'', ''./temp/go'', ''out.tar.gz'']" example_benv Map.empty] ok
    by simp
  from a b c d show ?thesis by simp
qed

end
